theory Spec2Isabelle
  imports Complex_Main
begin

section \<open>The calculator and echo views of \<open>api/views.py\<close>\<close>

text \<open>
  The two views with a contract are embedded here: \<open>calculate\<close> (lines 20-60) and
  \<open>process_data\<close> (lines 76-88). Each is modelled as the body of the Python function,
  as it runs once the method check of its decorator has let a POST request through.
\<close>

subsection \<open>Python values\<close>

text \<open>
  The exceptions that the builtins used by the views can raise. The decoding errors of
  \<open>json.loads\<close> (\<open>JSONDecodeError\<close>, \<open>UnicodeDecodeError\<close>) are subclasses of
  \<open>ValueError\<close> in Python and are not told apart from it.
\<close>

datatype error =
    ValueError
  | TypeError
  | OverflowError
  | AttributeError
  | ZeroDivisionError

text \<open>
  A decoded request body. \<open>'f\<close> is the type of Python's \<open>float\<close>; integers are
  unbounded. A \<open>dict\<close> is an association list read with \<open>map_of\<close>; the order of the
  pairs is the insertion order that the response encoder writes out.
\<close>

datatype 'f json =
    JNull
  | JBool bool
  | JInt int
  | JFloat 'f
  | JStr string
  | JList "'f json list"
  | JDict "(string \<times> 'f json) list"

text \<open>
  Python's \<open>float\<close> type is a parameter of the model: the conversions done by the
  builtin \<open>float()\<close>, the four arithmetic operators and the test \<open>x == 0\<close>.
  \<open>f_of_int n = None\<close> stands for \<open>float(n)\<close> raising \<open>OverflowError\<close> (the integer
  is outside the range of a double), \<open>f_of_str s = None\<close> for \<open>float(s)\<close> raising
  \<open>ValueError\<close> (the text is not a number). Addition, subtraction and multiplication of
  floats never raise; division raises exactly when the divisor compares equal to zero.
\<close>

record 'f float_ops =
  f_of_int :: "int \<Rightarrow> 'f option"
  f_of_str :: "string \<Rightarrow> 'f option"
  f_add :: "'f \<Rightarrow> 'f \<Rightarrow> 'f"
  f_sub :: "'f \<Rightarrow> 'f \<Rightarrow> 'f"
  f_mul :: "'f \<Rightarrow> 'f \<Rightarrow> 'f"
  f_div :: "'f \<Rightarrow> 'f \<Rightarrow> 'f"
  f_is_zero :: "'f \<Rightarrow> bool"

text \<open>
  \<open>obj.get(key, default)\<close>. Only a \<open>dict\<close> (or the \<open>QueryDict\<close> of a form body) has the
  method; on any other decoded body the attribute lookup raises \<open>AttributeError\<close>.
  The default is used only when the key is absent.
\<close>

fun py_get :: "'f json \<Rightarrow> string \<Rightarrow> 'f json \<Rightarrow> error + 'f json" where
  "py_get (JDict kvs) k d = Inr (case map_of kvs k of None \<Rightarrow> d | Some v \<Rightarrow> v)"
| "py_get JNull k d = Inl AttributeError"
| "py_get (JBool b) k d = Inl AttributeError"
| "py_get (JInt n) k d = Inl AttributeError"
| "py_get (JFloat x) k d = Inl AttributeError"
| "py_get (JStr s) k d = Inl AttributeError"
| "py_get (JList xs) k d = Inl AttributeError"

text \<open>
  The builtin \<open>float(x)\<close>: a float is returned as it is, an integer is converted or is
  too large, \<open>bool\<close> is a subclass of \<open>int\<close>, a string is parsed, and \<open>None\<close>, a list
  and a dict are rejected with \<open>TypeError\<close>.
\<close>

fun py_float :: "'f float_ops \<Rightarrow> 'f json \<Rightarrow> error + 'f" where
  "py_float ops (JFloat x) = Inr x"
| "py_float ops (JInt n) =
     (case f_of_int ops n of None \<Rightarrow> Inl OverflowError | Some x \<Rightarrow> Inr x)"
| "py_float ops (JBool b) =
     (case f_of_int ops (if b then 1 else 0) of None \<Rightarrow> Inl OverflowError | Some x \<Rightarrow> Inr x)"
| "py_float ops (JStr s) =
     (case f_of_str ops s of None \<Rightarrow> Inl ValueError | Some x \<Rightarrow> Inr x)"
| "py_float ops JNull = Inl TypeError"
| "py_float ops (JList xs) = Inl TypeError"
| "py_float ops (JDict kvs) = Inl TypeError"

text \<open>The operator \<open>/\<close> on two floats.\<close>

definition py_truediv :: "'f float_ops \<Rightarrow> 'f \<Rightarrow> 'f \<Rightarrow> error + 'f" where
  "py_truediv ops a b =
     (if f_is_zero ops b then Inl ZeroDivisionError else Inr (f_div ops a b))"

text \<open>
  Sequencing of statements that may raise: the first exception ends the block.
\<close>

definition and_then :: "error + 'a \<Rightarrow> ('a \<Rightarrow> error + 'b) \<Rightarrow> error + 'b" where
  "and_then m k = (case m of Inl e \<Rightarrow> Inl e | Inr x \<Rightarrow> k x)"

subsection \<open>Responses and runs\<close>

record 'f response =
  status :: nat
  body :: "(string \<times> 'f json) list"

datatype 'f outcome = Return "'f response" | Raise error

text \<open>
  What a view does besides returning: the only effect in the two views is the
  suspension \<open>await asyncio.sleep(seconds)\<close>.
\<close>

datatype effect = Sleep real

record 'f run =
  effects :: "effect list"
  outcome :: "'f outcome"

definition HTTP_200_OK :: nat where
  "HTTP_200_OK = 200"

definition HTTP_400_BAD_REQUEST :: nat where
  "HTTP_400_BAD_REQUEST = 400"

definition error_response :: "string \<Rightarrow> 'f response" where
  "error_response msg = \<lparr>status = HTTP_400_BAD_REQUEST, body = [(''error'', JStr msg)]\<rparr>"

definition divide_by_zero_msg :: string where
  "divide_by_zero_msg = ''Cannot divide by zero''"

definition invalid_operation_msg :: string where
  "invalid_operation_msg = ''Invalid operation. Use: add, subtract, multiply, or divide''"

definition invalid_input_msg :: string where
  "invalid_input_msg = ''Invalid input. Please provide valid numbers.''"

subsection \<open>The view \<open>calculate\<close>\<close>

text \<open>Lines 50-55: the success response.\<close>

definition calculation_response :: "'f \<Rightarrow> 'f \<Rightarrow> 'f json \<Rightarrow> 'f \<Rightarrow> 'f response" where
  "calculation_response num1 num2 operation result =
     \<lparr>status = HTTP_200_OK,
      body = [(''num1'', JFloat num1), (''num2'', JFloat num2),
              (''operation'', operation), (''result'', JFloat result)]\<rparr>"

text \<open>
  Lines 33-55: the dispatch on \<open>operation\<close>, with \<open>num1\<close> and \<open>num2\<close> already floats.
  \<open>operation == 'add'\<close> holds for the string \<open>add\<close> and for no other value.
\<close>

definition dispatch :: "'f float_ops \<Rightarrow> 'f \<Rightarrow> 'f \<Rightarrow> 'f json \<Rightarrow> error + 'f response" where
  "dispatch ops num1 num2 operation =
     (if operation = JStr ''add'' then
        Inr (calculation_response num1 num2 operation (f_add ops num1 num2))
      else if operation = JStr ''subtract'' then
        Inr (calculation_response num1 num2 operation (f_sub ops num1 num2))
      else if operation = JStr ''multiply'' then
        Inr (calculation_response num1 num2 operation (f_mul ops num1 num2))
      else if operation = JStr ''divide'' then
        (if f_is_zero ops num2 then Inr (error_response divide_by_zero_msg)
         else and_then (py_truediv ops num1 num2) (\<lambda>result.
                Inr (calculation_response num1 num2 operation result)))
      else Inr (error_response invalid_operation_msg))"

text \<open>
  Lines 27-55: the body of the \<open>try\<close> block. The statements run in the order of the
  source, and the first exception ends the block.
\<close>

definition calculate_try :: "'f float_ops \<Rightarrow> 'f json \<Rightarrow> error + 'f response" where
  "calculate_try ops data =
     and_then (py_get data ''num1'' (JInt 0)) (\<lambda>v1.
     and_then (py_float ops v1) (\<lambda>num1.
     and_then (py_get data ''num2'' (JInt 0)) (\<lambda>v2.
     and_then (py_float ops v2) (\<lambda>num2.
     and_then (py_get data ''operation'' (JStr ''add'')) (\<lambda>operation.
     dispatch ops num1 num2 operation)))))"

text \<open>
  Lines 26-60: \<open>except (ValueError, TypeError)\<close> turns these two exceptions into the
  invalid-input response; any other exception leaves the function.
\<close>

definition calculate :: "'f float_ops \<Rightarrow> 'f json \<Rightarrow> 'f run" where
  "calculate ops data =
     \<lparr>effects = [],
      outcome =
        (case calculate_try ops data of
           Inr r \<Rightarrow> Return r
         | Inl e \<Rightarrow>
             if e = ValueError \<or> e = TypeError
             then Return (error_response invalid_input_msg)
             else Raise e)\<rparr>"

subsection \<open>The view \<open>process_data\<close>\<close>

text \<open>
  Lines 77-88. \<open>json.loads\<close> belongs to the standard library and is a parameter: it
  maps the bytes of the body to a decoded value or to the exception it raises. The
  status of a \<open>JsonResponse\<close> built without a status argument is 200.
\<close>

definition process_data :: "(string \<Rightarrow> error + 'f json) \<Rightarrow> string \<Rightarrow> 'f run" where
  "process_data loads request_body =
     (case loads request_body of
        Inl e \<Rightarrow> \<lparr>effects = [], outcome = Raise e\<rparr>
      | Inr data \<Rightarrow>
          \<lparr>effects = [Sleep (2 / 10)],
           outcome = Return \<lparr>status = 200,
                             body = [(''received'', data), (''processed'', JBool True)]\<rparr>\<rparr>)"

subsection \<open>An instance for running the model\<close>

text \<open>
  An instance of the float operations on which the definitions can be evaluated. Its
  numbers are the reals. \<open>float(n)\<close> on an integer is CPython's: the integer is rounded
  to 53 significant bits, ties to the even neighbour, and \<open>OverflowError\<close> is raised
  when the rounded magnitude is \<open>2 ^ 1024\<close> or more, which is from
  \<open>2 ^ 1024 - 2 ^ 970\<close> on. The four operators compute in the reals without rounding,
  so they give CPython's result exactly when the real result is itself a double (as
  \<open>10 + 5\<close>, \<open>3 * 4\<close>, \<open>10 / 4\<close> or \<open>x + 0\<close> are), and they know no \<open>inf\<close> or
  \<open>nan\<close>. The string parser accepts an optional sign followed by decimal digits;
  CPython accepts more (fractions, exponents, blanks around the number, underscores,
  \<open>inf\<close>, \<open>nan\<close>). The instance is used below only at inputs where it agrees with
  CPython.
\<close>

text \<open>\<open>int.bit_length\<close>: the number of binary digits of a natural number.\<close>

fun bit_length :: "nat \<Rightarrow> nat" where
  "bit_length n = (if n = 0 then 0 else Suc (bit_length (n div 2)))"

declare bit_length.simps [simp del]

text \<open>
  The integer nearest to \<open>n\<close> with at most 53 significant bits, ties to even: with
  \<open>e\<close> the number of bits to drop, \<open>q\<close> the kept bits and \<open>r\<close> the dropped ones,
  \<open>q\<close> goes up when \<open>r\<close> is more than half of \<open>2 ^ e\<close>, or exactly half with
  \<open>q\<close> odd.
\<close>

definition round_to_53_bits :: "int \<Rightarrow> int" where
  "round_to_53_bits n =
     (if \<bar>n\<bar> < 2 ^ 53 then n
      else
        (let m = nat \<bar>n\<bar>;
             e = bit_length m - 53;
             q = m div 2 ^ e;
             r = m mod 2 ^ e;
             q' = (if 2 ^ e < 2 * r \<or> (2 * r = 2 ^ e \<and> odd q) then q + 1 else q)
         in if n < 0 then - int (q' * 2 ^ e) else int (q' * 2 ^ e)))"

definition ideal_of_int :: "int \<Rightarrow> real option" where
  "ideal_of_int n =
     (if 2 ^ 1024 - 2 ^ 970 \<le> \<bar>n\<bar> then None else Some (of_int (round_to_53_bits n)))"

definition digit_of :: "char \<Rightarrow> nat option" where
  "digit_of c =
     (let n = (of_char c :: nat) in if 48 \<le> n \<and> n \<le> 57 then Some (n - 48) else None)"

fun digits_value :: "nat \<Rightarrow> string \<Rightarrow> nat option" where
  "digits_value acc [] = Some acc"
| "digits_value acc (c # cs) =
     (case digit_of c of None \<Rightarrow> None | Some d \<Rightarrow> digits_value (10 * acc + d) cs)"

definition ideal_of_str :: "string \<Rightarrow> real option" where
  "ideal_of_str s =
     (case s of
        [] \<Rightarrow> None
      | c # cs \<Rightarrow>
          if c = CHR ''-'' \<or> c = CHR ''+'' then
            (if cs = [] then None
             else map_option (\<lambda>n. if c = CHR ''-'' then - real n else real n)
                    (digits_value 0 cs))
          else map_option real (digits_value 0 s))"

definition ideal_ops :: "real float_ops" where
  "ideal_ops =
     \<lparr>f_of_int = ideal_of_int, f_of_str = ideal_of_str,
      f_add = (\<lambda>a b. a + b), f_sub = (\<lambda>a b. a - b), f_mul = (\<lambda>a b. a * b),
      f_div = (\<lambda>a b. a / b), f_is_zero = (\<lambda>a. a = 0)\<rparr>"

text \<open>
  A decoder for three request bodies, enough to run \<open>process_data\<close>: two JSON texts
  and one text that is not JSON.
\<close>

definition three_bodies_loads :: "string \<Rightarrow> error + real json" where
  "three_bodies_loads s =
     (if s = ''null'' then Inr JNull
      else if s = ''[1, 2]'' then Inr (JList [JInt 1, JInt 2])
      else Inl ValueError)"

section \<open>Properties of \<open>calculate\<close>\<close>

subsection \<open>Unfolding the view on a JSON object\<close>

lemma calculate_try_dict:
  "calculate_try ops (JDict kvs) =
     and_then (py_float ops (case map_of kvs ''num1'' of None \<Rightarrow> JInt 0 | Some v \<Rightarrow> v)) (\<lambda>num1.
     and_then (py_float ops (case map_of kvs ''num2'' of None \<Rightarrow> JInt 0 | Some v \<Rightarrow> v)) (\<lambda>num2.
     dispatch ops num1 num2
       (case map_of kvs ''operation'' of None \<Rightarrow> JStr ''add'' | Some v \<Rightarrow> v)))"
  by (simp add: calculate_try_def and_then_def)

lemma calculate_try_converted:
  assumes "map_of kvs ''num1'' = Some v1" and "py_float ops v1 = Inr a"
    and "map_of kvs ''num2'' = Some v2" and "py_float ops v2 = Inr b"
    and "map_of kvs ''operation'' = Some operation"
  shows "calculate_try ops (JDict kvs) = dispatch ops a b operation"
  using assms by (simp add: calculate_try_dict and_then_def)

lemma calculate_of_response:
  "calculate_try ops data = Inr r \<Longrightarrow> calculate ops data = \<lparr>effects = [], outcome = Return r\<rparr>"
  by (simp add: calculate_def)

lemma calculate_of_error:
  "calculate_try ops data = Inl e \<Longrightarrow>
   calculate ops data =
     \<lparr>effects = [],
      outcome = (if e = ValueError \<or> e = TypeError
                 then Return (error_response invalid_input_msg) else Raise e)\<rparr>"
  by (simp add: calculate_def)

text \<open>The dispatch itself never raises: the division is guarded by the zero test.\<close>

lemma dispatch_returns: "\<exists>r. dispatch ops a b operation = Inr r"
  by (simp add: dispatch_def and_then_def py_truediv_def)

lemma py_truediv_raises_iff:
  "py_truediv ops a b = Inl ZeroDivisionError \<longleftrightarrow> f_is_zero ops b"
  by (simp add: py_truediv_def)

text \<open>The exceptions that can leave the \<open>try\<close> block, and where they come from.\<close>

lemma py_get_error: "py_get data k d = Inl e \<Longrightarrow> e = AttributeError"
  by (cases data) simp_all

lemma py_float_error:
  "py_float ops v = Inl e \<Longrightarrow> e = ValueError \<or> e = TypeError \<or> e = OverflowError"
  by (cases v) (auto split: option.splits)

lemma calculate_try_error:
  assumes "calculate_try ops data = Inl e"
  shows "e = AttributeError \<or> e = ValueError \<or> e = TypeError \<or> e = OverflowError"
proof (cases data)
  case (JDict kvs)
  define v1 where "v1 = (case map_of kvs ''num1'' of None \<Rightarrow> JInt 0 | Some v \<Rightarrow> v)"
  define v2 where "v2 = (case map_of kvs ''num2'' of None \<Rightarrow> JInt 0 | Some v \<Rightarrow> v)"
  define operation
    where "operation = (case map_of kvs ''operation'' of None \<Rightarrow> JStr ''add'' | Some v \<Rightarrow> v)"
  have unfolded: "calculate_try ops data =
      and_then (py_float ops v1) (\<lambda>num1.
      and_then (py_float ops v2) (\<lambda>num2. dispatch ops num1 num2 operation))"
    by (simp add: JDict calculate_try_dict v1_def v2_def operation_def)
  show ?thesis
  proof (cases "py_float ops v1")
    case (Inl e1)
    with assms unfolded have "e = e1" by (simp add: and_then_def)
    with Inl show ?thesis using py_float_error by blast
  next
    case num1: (Inr a)
    show ?thesis
    proof (cases "py_float ops v2")
      case (Inl e2)
      with assms unfolded num1 have "e = e2" by (simp add: and_then_def)
      with Inl show ?thesis using py_float_error by blast
    next
      case (Inr b)
      with assms unfolded num1 have "dispatch ops a b operation = Inl e"
        by (simp add: and_then_def)
      with dispatch_returns [of ops a b operation] show ?thesis by simp
    qed
  qed
qed (use assms in \<open>simp_all add: calculate_try_def and_then_def\<close>)

subsection \<open>Arithmetic\<close>

text \<open>The instance at the integer \<open>2 ^ 53 + 1\<close>, the first that is not a double.\<close>

lemma bit_length_9007199254740993: "bit_length 9007199254740993 = 54"
  by (simp add: bit_length.simps)

lemma ideal_of_int_9007199254740993: "ideal_of_int 9007199254740993 = Some 9007199254740992"
  unfolding ideal_of_int_def round_to_53_bits_def Let_def
  by (simp add: bit_length_9007199254740993)

lemma ideal_of_int_0: "ideal_of_int 0 = Some 0"
  by (simp add: ideal_of_int_def round_to_53_bits_def)

text \<open>
  C1, as stated, at the request
  \<open>{"num1": 9007199254740993, "num2": 0, "operation": "add"}\<close>: the view computes with
  \<open>float(num1)\<close>, which is \<open>9007199254740992.0\<close>. The response has status 200, but
  neither its \<open>num1\<close> nor its \<open>result\<close> is the number that was sent, so the body
  that the claim describes (\<open>num1 = a\<close>, \<open>result = a + b\<close>) is not the one returned.
\<close>

theorem calculate_add_echoes_rounded_float:
  "outcome (calculate ideal_ops
      (JDict [(''num1'', JInt 9007199254740993), (''num2'', JInt 0),
              (''operation'', JStr ''add'')])) =
     Return
       \<lparr>status = 200,
        body = [(''num1'', JFloat 9007199254740992), (''num2'', JFloat 0),
                (''operation'', JStr ''add''), (''result'', JFloat 9007199254740992)]\<rparr>
   \<and> outcome (calculate ideal_ops
      (JDict [(''num1'', JInt 9007199254740993), (''num2'', JInt 0),
              (''operation'', JStr ''add'')])) \<noteq>
     Return
       \<lparr>status = 200,
        body = [(''num1'', JFloat 9007199254740993), (''num2'', JFloat 0),
                (''operation'', JStr ''add''), (''result'', JFloat (9007199254740993 + 0))]\<rparr>"
  by (simp add: calculate_def calculate_try_dict and_then_def dispatch_def
      calculation_response_def HTTP_200_OK_def ideal_ops_def ideal_of_int_9007199254740993
      ideal_of_int_0)

text \<open>
  C1, amended. Whenever \<open>float()\<close> converts the values sent as \<open>num1\<close> and \<open>num2\<close>
  to the floats \<open>a\<close> and \<open>b\<close> (a float is converted to itself), each of the
  operations \<open>add\<close>, \<open>subtract\<close> and \<open>multiply\<close> makes the view return status 200
  with the result that the float operator \<open>+\<close>, \<open>-\<close> or \<open>*\<close> gives on \<open>a\<close> and
  \<open>b\<close>, and a body that repeats the converted floats \<open>a\<close> and \<open>b\<close> and the
  operation as sent. The operators are those of Python's floats, a parameter of the
  model: nothing is said about how they round.
\<close>

theorem calculate_add_subtract_multiply:
  assumes "map_of kvs ''num1'' = Some v1" and "py_float ops v1 = Inr a"
    and "map_of kvs ''num2'' = Some v2" and "py_float ops v2 = Inr b"
    and "map_of kvs ''operation'' = Some (JStr op)"
    and "op = ''add'' \<or> op = ''subtract'' \<or> op = ''multiply''"
  shows "calculate ops (JDict kvs) =
           \<lparr>effects = [],
            outcome = Return
              \<lparr>status = 200,
               body = [(''num1'', JFloat a), (''num2'', JFloat b), (''operation'', JStr op),
                       (''result'', JFloat (if op = ''add'' then f_add ops a b
                                            else if op = ''subtract'' then f_sub ops a b
                                            else f_mul ops a b))]\<rparr>\<rparr>"
proof -
  have "calculate_try ops (JDict kvs) = dispatch ops a b (JStr op)"
    using assms(1-5) by (rule calculate_try_converted)
  moreover have "dispatch ops a b (JStr op) =
      Inr \<lparr>status = 200,
           body = [(''num1'', JFloat a), (''num2'', JFloat b), (''operation'', JStr op),
                   (''result'', JFloat (if op = ''add'' then f_add ops a b
                                        else if op = ''subtract'' then f_sub ops a b
                                        else f_mul ops a b))]\<rparr>"
    using assms(6) by (auto simp: dispatch_def calculation_response_def HTTP_200_OK_def)
  ultimately show ?thesis
    by (simp add: calculate_of_response)
qed

theorem calculate_add_subtract_multiply_witness:
  "calculate ideal_ops
     (JDict [(''num1'', JInt 10), (''num2'', JInt 5), (''operation'', JStr ''add'')]) =
   \<lparr>effects = [],
    outcome = Return
      \<lparr>status = 200,
       body = [(''num1'', JFloat 10), (''num2'', JFloat 5), (''operation'', JStr ''add''),
               (''result'', JFloat 15)]\<rparr>\<rparr>
   \<and> calculate ideal_ops
     (JDict [(''num1'', JFloat 3), (''num2'', JFloat 4), (''operation'', JStr ''multiply'')]) =
   \<lparr>effects = [],
    outcome = Return
      \<lparr>status = 200,
       body = [(''num1'', JFloat 3), (''num2'', JFloat 4), (''operation'', JStr ''multiply''),
               (''result'', JFloat 12)]\<rparr>\<rparr>"
  using calculate_add_subtract_multiply
          [of "[(''num1'', JInt 10), (''num2'', JInt 5), (''operation'', JStr ''add'')]"
              "JInt 10" ideal_ops 10 "JInt 5" 5 "''add''"]
        calculate_add_subtract_multiply
          [of "[(''num1'', JFloat 3), (''num2'', JFloat 4), (''operation'', JStr ''multiply'')]"
              "JFloat 3" ideal_ops 3 "JFloat 4" 4 "''multiply''"]
  by (simp add: ideal_ops_def ideal_of_int_def round_to_53_bits_def)

text \<open>
  The \<open>divide\<close> branch when both numbers convert: status 400 and the error
  \<open>Cannot divide by zero\<close> when the source's test \<open>num2 == 0\<close> holds, and status
  200 with the quotient of the float operator \<open>/\<close> otherwise.
\<close>

lemma calculate_divide:
  assumes "map_of kvs ''num1'' = Some v1" and "py_float ops v1 = Inr a"
    and "map_of kvs ''num2'' = Some v2" and "py_float ops v2 = Inr b"
    and "map_of kvs ''operation'' = Some (JStr ''divide'')"
  shows "calculate ops (JDict kvs) =
           \<lparr>effects = [],
            outcome = Return
              (if f_is_zero ops b
               then \<lparr>status = 400, body = [(''error'', JStr ''Cannot divide by zero'')]\<rparr>
               else \<lparr>status = 200,
                     body = [(''num1'', JFloat a), (''num2'', JFloat b),
                             (''operation'', JStr ''divide''),
                             (''result'', JFloat (f_div ops a b))]\<rparr>)\<rparr>"
proof -
  have "calculate_try ops (JDict kvs) = dispatch ops a b (JStr ''divide'')"
    using assms by (rule calculate_try_converted)
  moreover have "dispatch ops a b (JStr ''divide'') =
      Inr (if f_is_zero ops b
           then \<lparr>status = 400, body = [(''error'', JStr ''Cannot divide by zero'')]\<rparr>
           else \<lparr>status = 200,
                 body = [(''num1'', JFloat a), (''num2'', JFloat b),
                         (''operation'', JStr ''divide''),
                         (''result'', JFloat (f_div ops a b))]\<rparr>)"
    by (simp add: dispatch_def and_then_def py_truediv_def calculation_response_def
        error_response_def divide_by_zero_msg_def HTTP_200_OK_def HTTP_400_BAD_REQUEST_def)
  ultimately show ?thesis
    by (simp add: calculate_of_response)
qed

lemma calculate_divide_example:
  "calculate ideal_ops
     (JDict [(''num1'', JInt 10), (''num2'', JInt 0), (''operation'', JStr ''divide'')]) =
   \<lparr>effects = [],
    outcome = Return \<lparr>status = 400, body = [(''error'', JStr ''Cannot divide by zero'')]\<rparr>\<rparr>
   \<and> calculate ideal_ops
     (JDict [(''num1'', JInt 10), (''num2'', JFloat 4), (''operation'', JStr ''divide'')]) =
   \<lparr>effects = [],
    outcome = Return
      \<lparr>status = 200,
       body = [(''num1'', JFloat 10), (''num2'', JFloat 4), (''operation'', JStr ''divide''),
               (''result'', JFloat (5 / 2))]\<rparr>\<rparr>"
  using calculate_divide
          [of "[(''num1'', JInt 10), (''num2'', JInt 0), (''operation'', JStr ''divide'')]"
              "JInt 10" ideal_ops 10 "JInt 0" 0]
        calculate_divide
          [of "[(''num1'', JInt 10), (''num2'', JFloat 4), (''operation'', JStr ''divide'')]"
              "JInt 10" ideal_ops 10 "JFloat 4" 4]
  by (simp add: ideal_ops_def ideal_of_int_def round_to_53_bits_def)

text \<open>
  C2, at the request \<open>{"num1": 10 ** 400, "num2": 0, "operation": "divide"}\<close>: the
  divisor is zero, but \<open>float(num1)\<close> on line 27 raises \<open>OverflowError\<close>, which the
  \<open>except\<close> clause does not name. The view raises instead of answering with status
  400 and \<open>Cannot divide by zero\<close>.
\<close>

theorem calculate_overflow_precedes_zero_divisor:
  "calculate ideal_ops
     (JDict [(''num1'', JInt (10 ^ 400)), (''num2'', JInt 0),
             (''operation'', JStr ''divide'')]) =
   \<lparr>effects = [], outcome = Raise OverflowError\<rparr>"
  by (simp add: calculate_def calculate_try_dict and_then_def ideal_ops_def ideal_of_int_def)

subsection \<open>Unknown operations\<close>

text \<open>
  An operation string other than \<open>add\<close>, \<open>subtract\<close>, \<open>multiply\<close> and \<open>divide\<close>,
  when both numbers convert: status 400 and the invalid-operation error.
\<close>

lemma calculate_invalid_operation:
  assumes "map_of kvs ''num1'' = Some v1" and "py_float ops v1 = Inr a"
    and "map_of kvs ''num2'' = Some v2" and "py_float ops v2 = Inr b"
    and "map_of kvs ''operation'' = Some (JStr op)"
    and "op \<noteq> ''add''" and "op \<noteq> ''subtract''" and "op \<noteq> ''multiply''"
    and "op \<noteq> ''divide''"
  shows "calculate ops (JDict kvs) =
           \<lparr>effects = [],
            outcome = Return
              \<lparr>status = 400,
               body = [(''error'',
                        JStr ''Invalid operation. Use: add, subtract, multiply, or divide'')]\<rparr>\<rparr>"
proof -
  have "calculate_try ops (JDict kvs) = dispatch ops a b (JStr op)"
    using assms(1-5) by (rule calculate_try_converted)
  moreover have "dispatch ops a b (JStr op) =
      Inr \<lparr>status = 400,
           body = [(''error'',
                    JStr ''Invalid operation. Use: add, subtract, multiply, or divide'')]\<rparr>"
    using assms(6-9)
    by (simp add: dispatch_def error_response_def invalid_operation_msg_def
        HTTP_400_BAD_REQUEST_def)
  ultimately show ?thesis
    by (simp add: calculate_of_response)
qed

lemma calculate_invalid_operation_example:
  "calculate ideal_ops
     (JDict [(''num1'', JInt 10), (''num2'', JInt 0), (''operation'', JStr ''power'')]) =
   \<lparr>effects = [],
    outcome = Return
      \<lparr>status = 400,
       body = [(''error'',
                JStr ''Invalid operation. Use: add, subtract, multiply, or divide'')]\<rparr>\<rparr>"
  using calculate_invalid_operation
          [of "[(''num1'', JInt 10), (''num2'', JInt 0), (''operation'', JStr ''power'')]"
              "JInt 10" ideal_ops 10 "JInt 0" 0 "''power''"]
  by (simp add: ideal_ops_def ideal_of_int_def round_to_53_bits_def)

text \<open>
  C4, at the request \<open>{"num1": 1, "num2": 10 ** 400, "operation": "power"}\<close>: the
  operation is unknown, but \<open>float(num2)\<close> on line 28 raises \<open>OverflowError\<close> before
  the operation is read, and the \<open>except\<close> clause does not name it. The view raises
  instead of answering with status 400 and the invalid-operation error.
\<close>

theorem calculate_overflow_precedes_invalid_operation:
  "calculate ideal_ops
     (JDict [(''num1'', JInt 1), (''num2'', JInt (10 ^ 400)),
             (''operation'', JStr ''power'')]) =
   \<lparr>effects = [], outcome = Raise OverflowError\<rparr>"
  by (simp add: calculate_def calculate_try_dict and_then_def ideal_ops_def ideal_of_int_def
      round_to_53_bits_def)

subsection \<open>Defaults\<close>

text \<open>
  C5. Leaving out \<open>num1\<close> or \<open>num2\<close> gives the response of the same body with \<open>0\<close>
  in that field, and leaving out \<open>operation\<close> gives the response of the same body with
  \<open>"add"\<close>. A \<open>0\<close> that is sent is looked up as a value, whatever the default of the
  lookup is, and is computed with as \<open>float(0)\<close>: it is not taken for a missing field.
\<close>

theorem calculate_defaults:
  "(map_of kvs ''num1'' = None \<longrightarrow>
      calculate ops (JDict kvs) = calculate ops (JDict ((''num1'', JInt 0) # kvs)))
   \<and> (map_of kvs ''num2'' = None \<longrightarrow>
      calculate ops (JDict kvs) = calculate ops (JDict ((''num2'', JInt 0) # kvs)))
   \<and> (map_of kvs ''operation'' = None \<longrightarrow>
      calculate ops (JDict kvs) = calculate ops (JDict ((''operation'', JStr ''add'') # kvs)))
   \<and> (map_of kvs k = Some (JInt 0) \<longrightarrow> py_get (JDict kvs) k d = Inr (JInt 0))
   \<and> (map_of kvs ''num1'' = Some (JInt 0) \<and> map_of kvs ''num2'' = Some (JInt 0)
        \<and> map_of kvs ''operation'' = Some (JStr ''add'') \<and> f_of_int ops 0 = Some z \<longrightarrow>
      calculate ops (JDict kvs) =
        \<lparr>effects = [],
         outcome = Return
           \<lparr>status = 200,
            body = [(''num1'', JFloat z), (''num2'', JFloat z), (''operation'', JStr ''add''),
                    (''result'', JFloat (f_add ops z z))]\<rparr>\<rparr>)"
proof -
  have num1: "calculate ops (JDict kvs) = calculate ops (JDict ((''num1'', JInt 0) # kvs))"
    if "map_of kvs ''num1'' = None"
    using that by (simp add: calculate_def calculate_try_dict)
  have num2: "calculate ops (JDict kvs) = calculate ops (JDict ((''num2'', JInt 0) # kvs))"
    if "map_of kvs ''num2'' = None"
    using that by (simp add: calculate_def calculate_try_dict)
  have operation:
    "calculate ops (JDict kvs) = calculate ops (JDict ((''operation'', JStr ''add'') # kvs))"
    if "map_of kvs ''operation'' = None"
    using that by (simp add: calculate_def calculate_try_dict)
  have lookup: "py_get (JDict kvs) k d = Inr (JInt 0)" if "map_of kvs k = Some (JInt 0)"
    using that by simp
  have zero: "calculate ops (JDict kvs) =
      \<lparr>effects = [],
       outcome = Return
         \<lparr>status = 200,
          body = [(''num1'', JFloat z), (''num2'', JFloat z), (''operation'', JStr ''add''),
                  (''result'', JFloat (f_add ops z z))]\<rparr>\<rparr>"
    if "map_of kvs ''num1'' = Some (JInt 0)" and "map_of kvs ''num2'' = Some (JInt 0)"
      and "map_of kvs ''operation'' = Some (JStr ''add'')" and "f_of_int ops 0 = Some z"
  proof -
    have "calculate_try ops (JDict kvs) = dispatch ops z z (JStr ''add'')"
      using that by (intro calculate_try_converted [where ?v1.0 = "JInt 0" and ?v2.0 = "JInt 0"])
        simp_all
    then show ?thesis
      by (simp add: calculate_of_response dispatch_def calculation_response_def HTTP_200_OK_def)
  qed
  from num1 num2 operation lookup zero show ?thesis
    by blast
qed

theorem calculate_defaults_witness:
  "calculate ideal_ops (JDict [(''operation'', JStr ''multiply'')]) =
     calculate ideal_ops (JDict [(''num1'', JInt 0), (''operation'', JStr ''multiply'')])
   \<and> calculate ideal_ops (JDict [(''operation'', JStr ''multiply'')]) =
     calculate ideal_ops (JDict [(''num2'', JInt 0), (''operation'', JStr ''multiply'')])
   \<and> calculate ideal_ops (JDict [(''num1'', JInt 3)]) =
     calculate ideal_ops (JDict [(''operation'', JStr ''add''), (''num1'', JInt 3)])
   \<and> py_get (JDict [(''num1'', JInt 0)]) ''num1'' (JInt 7 :: real json) = Inr (JInt 0)
   \<and> calculate ideal_ops
       (JDict [(''num1'', JInt 0), (''num2'', JInt 0), (''operation'', JStr ''add'')]) =
      \<lparr>effects = [],
       outcome = Return
         \<lparr>status = 200,
          body = [(''num1'', JFloat 0), (''num2'', JFloat 0), (''operation'', JStr ''add''),
                  (''result'', JFloat 0)]\<rparr>\<rparr>"
proof -
  have zero: "f_of_int ideal_ops 0 = Some 0"
    by (simp add: ideal_ops_def ideal_of_int_def round_to_53_bits_def)
  have no_numbers:
    "map_of [(''operation'', JStr ''multiply'' :: real json)] ''num1'' = None"
    "map_of [(''operation'', JStr ''multiply'' :: real json)] ''num2'' = None"
    by simp_all
  have absent_num1:
    "calculate ideal_ops (JDict [(''operation'', JStr ''multiply'')]) =
       calculate ideal_ops (JDict [(''num1'', JInt 0), (''operation'', JStr ''multiply'')])"
    using no_numbers(1) calculate_defaults
            [where kvs = "[(''operation'', JStr ''multiply'')]" and ops = ideal_ops
               and k = "''num1''" and d = JNull and z = 0]
    by blast
  have absent_num2:
    "calculate ideal_ops (JDict [(''operation'', JStr ''multiply'')]) =
       calculate ideal_ops (JDict [(''num2'', JInt 0), (''operation'', JStr ''multiply'')])"
    using no_numbers(2) calculate_defaults
            [where kvs = "[(''operation'', JStr ''multiply'')]" and ops = ideal_ops
               and k = "''num1''" and d = JNull and z = 0]
    by blast
  have no_operation: "map_of [(''num1'', JInt 3 :: real json)] ''operation'' = None"
    by simp
  have absent_operation:
    "calculate ideal_ops (JDict [(''num1'', JInt 3)]) =
       calculate ideal_ops (JDict [(''operation'', JStr ''add''), (''num1'', JInt 3)])"
    using no_operation
      calculate_defaults
        [where kvs = "[(''num1'', JInt 3)]" and ops = ideal_ops
           and k = "''num1''" and d = JNull and z = 0]
    by blast
  have sent_zero: "map_of [(''num1'', JInt 0 :: real json)] ''num1'' = Some (JInt 0)"
    by simp
  have present_zero:
    "py_get (JDict [(''num1'', JInt 0)]) ''num1'' (JInt 7 :: real json) = Inr (JInt 0)"
    using sent_zero
      calculate_defaults
        [where kvs = "[(''num1'', JInt 0)]" and k = "''num1''" and d = "JInt 7"
           and ops = ideal_ops and z = 0]
    by blast
  have zeros:
    "map_of [(''num1'', JInt 0 :: real json), (''num2'', JInt 0), (''operation'', JStr ''add'')]
       ''num1'' = Some (JInt 0)"
    "map_of [(''num1'', JInt 0 :: real json), (''num2'', JInt 0), (''operation'', JStr ''add'')]
       ''num2'' = Some (JInt 0)"
    "map_of [(''num1'', JInt 0 :: real json), (''num2'', JInt 0), (''operation'', JStr ''add'')]
       ''operation'' = Some (JStr ''add'')"
    by simp_all
  have computed_zero:
    "calculate ideal_ops
       (JDict [(''num1'', JInt 0), (''num2'', JInt 0), (''operation'', JStr ''add'')]) =
     \<lparr>effects = [],
      outcome = Return
        \<lparr>status = 200,
         body = [(''num1'', JFloat 0), (''num2'', JFloat 0), (''operation'', JStr ''add''),
                 (''result'', JFloat (f_add ideal_ops 0 0))]\<rparr>\<rparr>"
    using zero zeros calculate_defaults
            [where kvs = "[(''num1'', JInt 0), (''num2'', JInt 0), (''operation'', JStr ''add'')]"
               and ops = ideal_ops and z = 0 and k = "''num1''" and d = JNull]
    by blast
  have "f_add ideal_ops 0 0 = 0"
    by (simp add: ideal_ops_def)
  with computed_zero have
    "calculate ideal_ops
       (JDict [(''num1'', JInt 0), (''num2'', JInt 0), (''operation'', JStr ''add'')]) =
     \<lparr>effects = [],
      outcome = Return
        \<lparr>status = 200,
         body = [(''num1'', JFloat 0), (''num2'', JFloat 0), (''operation'', JStr ''add''),
                 (''result'', JFloat 0)]\<rparr>\<rparr>"
    by simp
  with absent_num1 absent_num2 absent_operation present_zero show ?thesis
    by blast
qed

subsection \<open>Division by zero\<close>

text \<open>
  C6. In the \<open>divide\<close> branch the test \<open>num2 == 0\<close> comes before the division, so the
  division is evaluated only with a divisor that is not zero: no request makes the view
  raise \<open>ZeroDivisionError\<close>, although the operator \<open>/\<close> of the model raises it on
  every zero divisor (\<open>py_truediv_raises_iff\<close>).
\<close>

theorem calculate_no_zero_division:
  "outcome (calculate ops data) \<noteq> Raise ZeroDivisionError"
proof (cases "calculate_try ops data")
  case (Inl e)
  then have "e \<noteq> ZeroDivisionError"
    using calculate_try_error by fastforce
  with Inl show ?thesis
    by (simp add: calculate_of_error)
next
  case (Inr r)
  then show ?thesis
    by (simp add: calculate_of_response)
qed

theorem calculate_no_zero_division_witness:
  "outcome (calculate ideal_ops
     (JDict [(''num1'', JInt 10), (''num2'', JInt 0), (''operation'', JStr ''divide'')]))
   \<noteq> Raise ZeroDivisionError"
  using calculate_no_zero_division
          [of ideal_ops
              "JDict [(''num1'', JInt 10), (''num2'', JInt 0), (''operation'', JStr ''divide'')]"]
  by simp

subsection \<open>Dependence on the request\<close>

text \<open>
  C8. The view is a function of the three fields it reads: two request bodies with the
  same \<open>num1\<close>, \<open>num2\<close> and \<open>operation\<close> get the same status and the same body (and
  the same exception, where one is raised), whatever else they contain, and the view
  performs no effect.
\<close>

theorem calculate_depends_on_three_fields:
  assumes "map_of kvs ''num1'' = map_of kvs' ''num1''"
    and "map_of kvs ''num2'' = map_of kvs' ''num2''"
    and "map_of kvs ''operation'' = map_of kvs' ''operation''"
  shows "calculate ops (JDict kvs) = calculate ops (JDict kvs')
         \<and> effects (calculate ops (JDict kvs)) = []"
  using assms by (simp add: calculate_def calculate_try_dict)

theorem calculate_depends_on_three_fields_witness:
  "calculate ideal_ops (JDict [(''num1'', JInt 1), (''comment'', JStr ''x'')]) =
     calculate ideal_ops (JDict [(''id'', JNull), (''num1'', JInt 1)])
   \<and> effects (calculate ideal_ops (JDict [(''num1'', JInt 1), (''comment'', JStr ''x'')])) = []"
  by (rule calculate_depends_on_three_fields) simp_all

subsection \<open>Invalid numbers and null fields\<close>

text \<open>
  The numbers are converted before the operation is looked at, \<open>num1\<close> first. A
  \<open>ValueError\<close> or \<open>TypeError\<close> of either conversion gives the invalid-input response,
  whatever the operation and whatever the other fields hold; the conversion of \<open>num2\<close>
  is reached only when the conversion of \<open>num1\<close> has returned.
\<close>

lemma calculate_first_conversion_fails:
  assumes "py_float ops (case map_of kvs ''num1'' of None \<Rightarrow> JInt 0 | Some v \<Rightarrow> v) = Inl e"
  shows "calculate ops (JDict kvs) =
           \<lparr>effects = [],
            outcome = (if e = ValueError \<or> e = TypeError
                       then Return (error_response invalid_input_msg) else Raise e)\<rparr>"
  using assms by (simp add: calculate_def calculate_try_dict and_then_def)

lemma calculate_second_conversion_fails:
  assumes "py_float ops (case map_of kvs ''num1'' of None \<Rightarrow> JInt 0 | Some v \<Rightarrow> v) = Inr a"
    and "py_float ops (case map_of kvs ''num2'' of None \<Rightarrow> JInt 0 | Some v \<Rightarrow> v) = Inl e"
  shows "calculate ops (JDict kvs) =
           \<lparr>effects = [],
            outcome = (if e = ValueError \<or> e = TypeError
                       then Return (error_response invalid_input_msg) else Raise e)\<rparr>"
  using assms by (simp add: calculate_def calculate_try_dict and_then_def)

lemma calculate_invalid_num1:
  assumes "map_of kvs ''num1'' = Some (JStr s)" and "f_of_str ops s = None"
  shows "calculate ops (JDict kvs) =
           \<lparr>effects = [], outcome = Return (error_response invalid_input_msg)\<rparr>"
  using assms calculate_first_conversion_fails [of ops kvs ValueError] by simp

lemma calculate_invalid_num2:
  assumes "map_of kvs ''num2'' = Some (JStr s)" and "f_of_str ops s = None"
    and "py_float ops (case map_of kvs ''num1'' of None \<Rightarrow> JInt 0 | Some v \<Rightarrow> v)
           \<noteq> Inl OverflowError"
  shows "calculate ops (JDict kvs) =
           \<lparr>effects = [], outcome = Return (error_response invalid_input_msg)\<rparr>"
proof (cases "py_float ops (case map_of kvs ''num1'' of None \<Rightarrow> JInt 0 | Some v \<Rightarrow> v)")
  case (Inl e)
  with assms(3) have "e = ValueError \<or> e = TypeError"
    using py_float_error by blast
  with Inl show ?thesis
    using calculate_first_conversion_fails [of ops kvs e] by simp
next
  case (Inr a)
  with assms(1,2) show ?thesis
    using calculate_second_conversion_fails [of ops kvs a ValueError] by simp
qed

text \<open>
  C3, at the request \<open>{"num1": 10 ** 400, "num2": "abc", "operation": "add"}\<close>:
  \<open>num2\<close> is a string that is not a number, but \<open>float(num1)\<close> runs first and raises
  \<open>OverflowError\<close>, which the \<open>except\<close> clause does not name. The view raises
  instead of answering with the invalid-input error.
\<close>

theorem calculate_overflow_precedes_invalid_string:
  "f_of_str ideal_ops ''abc'' = None
   \<and> calculate ideal_ops
       (JDict [(''num1'', JInt (10 ^ 400)), (''num2'', JStr ''abc''),
               (''operation'', JStr ''add'')]) =
     \<lparr>effects = [], outcome = Raise OverflowError\<rparr>"
  by (simp add: calculate_def calculate_try_dict and_then_def ideal_ops_def ideal_of_int_def round_to_53_bits_def
      ideal_of_str_def digit_of_def)

text \<open>
  C7, at the request \<open>{"num1": 10 ** 400}\<close>: the integer is too large for a float,
  \<open>float()\<close> raises \<open>OverflowError\<close>, and the exception leaves the view: the
  outcome is neither the success response nor a 400 response.
\<close>

theorem calculate_uncaught_overflow:
  "calculate ideal_ops (JDict [(''num1'', JInt (10 ^ 400))]) =
     \<lparr>effects = [], outcome = Raise OverflowError\<rparr>"
  by (simp add: calculate_def calculate_try_dict and_then_def ideal_ops_def ideal_of_int_def round_to_53_bits_def)

text \<open>
  What does hold for every request: the view returns the success response, returns one
  of the three error responses, or raises \<open>OverflowError\<close> (an integer too large for
  a float) or \<open>AttributeError\<close> (a body that is not a JSON object).
\<close>

lemma dispatch_cases:
  assumes "dispatch ops a b operation = Inr r"
  shows "(\<exists>result. r = calculation_response a b operation result)
         \<or> r = error_response divide_by_zero_msg
         \<or> r = error_response invalid_operation_msg"
  using assms by (auto simp: dispatch_def and_then_def py_truediv_def split: if_splits)

lemma calculate_try_response:
  assumes "calculate_try ops data = Inr r"
  shows "(\<exists>a b operation result. r = calculation_response a b operation result)
         \<or> r = error_response divide_by_zero_msg
         \<or> r = error_response invalid_operation_msg"
proof (cases data)
  case (JDict kvs)
  with assms obtain a b operation where "dispatch ops a b operation = Inr r"
    by (auto simp: calculate_try_dict and_then_def split: sum.splits)
  from dispatch_cases [OF this] show ?thesis
    by auto
qed (use assms in \<open>simp_all add: calculate_try_def and_then_def\<close>)

lemma calculate_outcome_cases:
  "(\<exists>a b operation result.
      outcome (calculate ops data) = Return (calculation_response a b operation result))
   \<or> outcome (calculate ops data) = Return (error_response divide_by_zero_msg)
   \<or> outcome (calculate ops data) = Return (error_response invalid_operation_msg)
   \<or> outcome (calculate ops data) = Return (error_response invalid_input_msg)
   \<or> outcome (calculate ops data) = Raise OverflowError
   \<or> outcome (calculate ops data) = Raise AttributeError"
proof (cases "calculate_try ops data")
  case (Inl e)
  then show ?thesis
    using calculate_try_error [OF Inl] by (auto simp: calculate_of_error)
next
  case (Inr r)
  then show ?thesis
    using calculate_try_response [OF Inr] by (auto simp: calculate_of_response)
qed

text \<open>
  C10, as stated, at the request \<open>{"num1": "abc", "operation": null}\<close>: the operation is
  null, yet the response carries the invalid-input error, not the invalid-operation
  error, because the numbers are converted first.
\<close>

theorem null_operation_with_invalid_number:
  "map_of [(''num1'', JStr ''abc''), (''operation'', JNull :: real json)] ''operation''
     = Some JNull
   \<and> outcome (calculate ideal_ops (JDict [(''num1'', JStr ''abc''), (''operation'', JNull)])) =
       Return \<lparr>status = 400,
               body = [(''error'', JStr ''Invalid input. Please provide valid numbers.'')]\<rparr>
   \<and> outcome (calculate ideal_ops (JDict [(''num1'', JStr ''abc''), (''operation'', JNull)])) \<noteq>
       Return \<lparr>status = 400,
               body = [(''error'',
                        JStr ''Invalid operation. Use: add, subtract, multiply, or divide'')]\<rparr>"
  by (simp add: calculate_def calculate_try_dict and_then_def ideal_ops_def ideal_of_str_def
      digit_of_def error_response_def invalid_input_msg_def HTTP_400_BAD_REQUEST_def)

text \<open>
  C10, amended. A default stands in for a missing key only, never for a key that is
  present with the value null. Null for \<open>num1\<close> gives status 400 and the invalid-input
  error. Null for \<open>num2\<close> gives the same response whenever the conversion of \<open>num1\<close>
  (or of its default) does not raise \<open>OverflowError\<close>. Null for \<open>operation\<close> gives
  status 400 and the invalid-operation error whenever \<open>num1\<close> and \<open>num2\<close> (or their
  defaults) convert to floats.
\<close>

theorem calculate_null_fields:
  "(map_of kvs ''num1'' = Some JNull \<longrightarrow>
      calculate ops (JDict kvs) =
        \<lparr>effects = [],
         outcome = Return
           \<lparr>status = 400,
            body = [(''error'', JStr ''Invalid input. Please provide valid numbers.'')]\<rparr>\<rparr>)
   \<and> (map_of kvs ''num2'' = Some JNull
        \<and> py_float ops (case map_of kvs ''num1'' of None \<Rightarrow> JInt 0 | Some v \<Rightarrow> v)
            \<noteq> Inl OverflowError \<longrightarrow>
      calculate ops (JDict kvs) =
        \<lparr>effects = [],
         outcome = Return
           \<lparr>status = 400,
            body = [(''error'', JStr ''Invalid input. Please provide valid numbers.'')]\<rparr>\<rparr>)
   \<and> (map_of kvs ''operation'' = Some JNull
        \<and> py_float ops (case map_of kvs ''num1'' of None \<Rightarrow> JInt 0 | Some v \<Rightarrow> v) = Inr a
        \<and> py_float ops (case map_of kvs ''num2'' of None \<Rightarrow> JInt 0 | Some v \<Rightarrow> v) = Inr b \<longrightarrow>
      calculate ops (JDict kvs) =
        \<lparr>effects = [],
         outcome = Return
           \<lparr>status = 400,
            body = [(''error'',
                     JStr ''Invalid operation. Use: add, subtract, multiply, or divide'')]\<rparr>\<rparr>)"
proof -
  have invalid_input:
    "error_response invalid_input_msg =
       \<lparr>status = 400,
        body = [(''error'', JStr ''Invalid input. Please provide valid numbers.'' :: 'a json)]\<rparr>"
    by (simp add: error_response_def invalid_input_msg_def HTTP_400_BAD_REQUEST_def)
  have null_num1: "calculate ops (JDict kvs) =
      \<lparr>effects = [], outcome = Return (error_response invalid_input_msg)\<rparr>"
    if "map_of kvs ''num1'' = Some JNull"
    using that calculate_first_conversion_fails [of ops kvs TypeError] by simp
  have null_num2: "calculate ops (JDict kvs) =
      \<lparr>effects = [], outcome = Return (error_response invalid_input_msg)\<rparr>"
    if "map_of kvs ''num2'' = Some JNull"
      and "py_float ops (case map_of kvs ''num1'' of None \<Rightarrow> JInt 0 | Some v \<Rightarrow> v)
             \<noteq> Inl OverflowError"
  proof (cases "py_float ops (case map_of kvs ''num1'' of None \<Rightarrow> JInt 0 | Some v \<Rightarrow> v)")
    case (Inl e)
    with that(2) have "e = ValueError \<or> e = TypeError"
      using py_float_error by blast
    with Inl show ?thesis
      using calculate_first_conversion_fails [of ops kvs e] by simp
  next
    case (Inr x)
    with that(1) show ?thesis
      using calculate_second_conversion_fails [of ops kvs x TypeError] by simp
  qed
  have null_operation: "calculate ops (JDict kvs) =
      \<lparr>effects = [],
       outcome = Return
         \<lparr>status = 400,
          body = [(''error'',
                   JStr ''Invalid operation. Use: add, subtract, multiply, or divide'')]\<rparr>\<rparr>"
    if "map_of kvs ''operation'' = Some JNull"
      and "py_float ops (case map_of kvs ''num1'' of None \<Rightarrow> JInt 0 | Some v \<Rightarrow> v) = Inr a"
      and "py_float ops (case map_of kvs ''num2'' of None \<Rightarrow> JInt 0 | Some v \<Rightarrow> v) = Inr b"
    using that
    by (simp add: calculate_def calculate_try_dict and_then_def dispatch_def error_response_def
        invalid_operation_msg_def HTTP_400_BAD_REQUEST_def)
  from null_num1 null_num2 null_operation show ?thesis
    unfolding invalid_input by blast
qed

theorem calculate_null_fields_witness:
  "calculate ideal_ops (JDict [(''num1'', JNull), (''num2'', JInt 2)]) =
     \<lparr>effects = [],
      outcome = Return
        \<lparr>status = 400,
         body = [(''error'', JStr ''Invalid input. Please provide valid numbers.'')]\<rparr>\<rparr>
   \<and> calculate ideal_ops (JDict [(''num1'', JInt 1), (''num2'', JNull)]) =
     \<lparr>effects = [],
      outcome = Return
        \<lparr>status = 400,
         body = [(''error'', JStr ''Invalid input. Please provide valid numbers.'')]\<rparr>\<rparr>
   \<and> calculate ideal_ops
       (JDict [(''num1'', JInt 1), (''num2'', JInt 2), (''operation'', JNull)]) =
     \<lparr>effects = [],
      outcome = Return
        \<lparr>status = 400,
         body = [(''error'',
                  JStr ''Invalid operation. Use: add, subtract, multiply, or divide'')]\<rparr>\<rparr>"
proof -
  have null_num1:
    "map_of [(''num1'', JNull :: real json), (''num2'', JInt 2)] ''num1'' = Some JNull"
    by simp
  have null_num2:
    "map_of [(''num1'', JInt 1 :: real json), (''num2'', JNull)] ''num2'' = Some JNull
     \<and> py_float ideal_ops
          (case map_of [(''num1'', JInt 1 :: real json), (''num2'', JNull)] ''num1'' of
             None \<Rightarrow> JInt 0 | Some v \<Rightarrow> v) \<noteq> Inl OverflowError"
    by (simp add: ideal_ops_def ideal_of_int_def round_to_53_bits_def)
  have null_operation:
    "map_of [(''num1'', JInt 1 :: real json), (''num2'', JInt 2), (''operation'', JNull)]
       ''operation'' = Some JNull
     \<and> py_float ideal_ops
          (case map_of [(''num1'', JInt 1 :: real json), (''num2'', JInt 2),
                        (''operation'', JNull)] ''num1'' of
             None \<Rightarrow> JInt 0 | Some v \<Rightarrow> v) = Inr 1
     \<and> py_float ideal_ops
          (case map_of [(''num1'', JInt 1 :: real json), (''num2'', JInt 2),
                        (''operation'', JNull)] ''num2'' of
             None \<Rightarrow> JInt 0 | Some v \<Rightarrow> v) = Inr 2"
    by (simp add: ideal_ops_def ideal_of_int_def round_to_53_bits_def)
  from null_num1 null_num2 null_operation
    calculate_null_fields
      [where kvs = "[(''num1'', JNull), (''num2'', JInt 2)]" and ops = ideal_ops
         and a = 1 and b = 2]
    calculate_null_fields
      [where kvs = "[(''num1'', JInt 1), (''num2'', JNull)]" and ops = ideal_ops
         and a = 1 and b = 2]
    calculate_null_fields
      [where kvs = "[(''num1'', JInt 1), (''num2'', JInt 2), (''operation'', JNull)]"
         and ops = ideal_ops and a = 1 and b = 2]
  show ?thesis
    by blast
qed

section \<open>Properties of \<open>process_data\<close>\<close>

text \<open>
  C9. For every body sent to the echo view: when \<open>json.loads\<close> decodes it, the view
  suspends once and answers with status 200 and the decoded value, unchanged, under
  \<open>received\<close>, next to \<open>processed: true\<close>; when \<open>json.loads\<close> raises, the exception
  leaves the view as it is, and no response, in particular no 400 response, is built.
\<close>

theorem process_data_echo:
  "(loads request_body = Inr data \<longrightarrow>
      process_data loads request_body =
        \<lparr>effects = [Sleep (2 / 10)],
         outcome = Return
           \<lparr>status = 200, body = [(''received'', data), (''processed'', JBool True)]\<rparr>\<rparr>)
   \<and> (loads request_body = Inl e \<longrightarrow>
      process_data loads request_body = \<lparr>effects = [], outcome = Raise e\<rparr>)"
  by (simp add: process_data_def)

theorem process_data_echo_witness:
  "process_data three_bodies_loads ''[1, 2]'' =
     \<lparr>effects = [Sleep (2 / 10)],
      outcome = Return
        \<lparr>status = 200,
         body = [(''received'', JList [JInt 1, JInt 2]), (''processed'', JBool True)]\<rparr>\<rparr>
   \<and> process_data three_bodies_loads ''{'' = \<lparr>effects = [], outcome = Raise ValueError\<rparr>"
proof -
  have decoded: "three_bodies_loads ''[1, 2]'' = Inr (JList [JInt 1, JInt 2])"
    and malformed: "three_bodies_loads ''{'' = Inl ValueError"
    by (simp_all add: three_bodies_loads_def)
  from decoded malformed
    process_data_echo
      [where loads = three_bodies_loads and request_body = "''[1, 2]''"
         and data = "JList [JInt 1, JInt 2]" and e = ValueError]
    process_data_echo
      [where loads = three_bodies_loads and request_body = "''{''"
         and data = "JList [JInt 1, JInt 2]" and e = ValueError]
  show ?thesis
    by blast
qed

end
